theory Spec2Isabelle
  imports Main "HOL-Library.AList"
begin

section \<open>Python values\<close>

text \<open>
  The Flask application in \<open>app.py\<close> receives decoded JSON (\<open>request.get_json()\<close>),
  query strings, and objects of the Excel automation binding. A \<open>char\<close> stands for a
  code point below 256, a \<open>string\<close> for a Python \<open>str\<close> over such code points.
\<close>

subsection \<open>Decoded JSON\<close>

text \<open>
  What \<open>json.loads\<close> builds: \<open>None\<close>, \<open>bool\<close>, \<open>int\<close>, \<open>float\<close>, \<open>str\<close>,
  \<open>list\<close> and \<open>dict\<close> with string keys (in insertion order, keys distinct). A float
  is represented by its \<open>repr\<close>, which identifies a Python float: the program only
  formats floats and tests them for zero.
\<close>

datatype json =
    JNone
  | JBool bool
  | JInt int
  | JFloat string
  | JStr string
  | JList "json list"
  | JDict "(string \<times> json) list"

text \<open>Truth value testing (\<open>not x\<close>, \<open>if x:\<close>).\<close>

fun py_truthy :: "json \<Rightarrow> bool" where
  "py_truthy JNone = False"
| "py_truthy (JBool b) = b"
| "py_truthy (JInt i) = (i \<noteq> 0)"
| "py_truthy (JFloat r) = (r \<noteq> ''0.0'' \<and> r \<noteq> ''-0.0'')"
| "py_truthy (JStr s) = (s \<noteq> [])"
| "py_truthy (JList xs) = (xs \<noteq> [])"
| "py_truthy (JDict kvs) = (kvs \<noteq> [])"

subsection \<open>\<open>str()\<close> and \<open>repr()\<close>\<close>

definition digit_char :: "nat \<Rightarrow> char" where
  "digit_char d = ''0123456789'' ! d"

text \<open>Decimal digits of a natural number, most significant first.\<close>

function digits_nat :: "nat \<Rightarrow> string" where
  "digits_nat n = (if n < 10 then [digit_char n] else digits_nat (n div 10) @ [digit_char (n mod 10)])"
  by pat_completeness auto
termination
  by (relation "measure id") auto

declare digits_nat.simps [simp del]

definition py_str_int :: "int \<Rightarrow> string" where
  "py_str_int i = (if i < 0 then CHR ''-'' # digits_nat (nat (- i)) else digits_nat (nat i))"

definition hex_char :: "nat \<Rightarrow> char" where
  "hex_char d = ''0123456789abcdef'' ! d"

text \<open>
  \<open>str.isprintable\<close> on code points below 256: the controls, \<open>0x7f\<close>..\<open>0xa0\<close> and the
  soft hyphen \<open>0xad\<close> are not printable.
\<close>

definition py_printable :: "char \<Rightarrow> bool" where
  "py_printable c = (let n = (of_char c :: nat) in 32 \<le> n \<and> \<not> (127 \<le> n \<and> n \<le> 160) \<and> n \<noteq> 173)"

definition repr_char :: "char \<Rightarrow> char \<Rightarrow> string" where
  "repr_char quote c =
     (if c = quote \<or> c = CHR 0x5C then [CHR 0x5C, c]
      else if c = CHR 0x09 then [CHR 0x5C, CHR ''t'']
      else if c = CHR 0x0A then [CHR 0x5C, CHR ''n'']
      else if c = CHR 0x0D then [CHR 0x5C, CHR ''r'']
      else if py_printable c then [c]
      else [CHR 0x5C, CHR ''x'', hex_char ((of_char c :: nat) div 16), hex_char ((of_char c :: nat) mod 16)])"

text \<open>\<open>repr\<close> of a \<open>str\<close>: double quotes when the text has a single quote and no double quote.\<close>

definition py_repr_str :: "string \<Rightarrow> string" where
  "py_repr_str s =
     (let quote = (if CHR 0x27 \<in> set s \<and> CHR 0x22 \<notin> set s then CHR 0x22 else CHR 0x27)
      in [quote] @ concat (map (repr_char quote) s) @ [quote])"

fun py_join :: "string \<Rightarrow> string list \<Rightarrow> string" where
  "py_join sep [] = []"
| "py_join sep [x] = x"
| "py_join sep (x # y # ys) = x @ sep @ py_join sep (y # ys)"

fun py_repr :: "json \<Rightarrow> string" where
  "py_repr JNone = ''None''"
| "py_repr (JBool b) = (if b then ''True'' else ''False'')"
| "py_repr (JInt i) = py_str_int i"
| "py_repr (JFloat r) = r"
| "py_repr (JStr s) = py_repr_str s"
| "py_repr (JList xs) = ''['' @ py_join '', '' (map py_repr xs) @ '']''"
| "py_repr (JDict kvs) =
     ''{'' @ py_join '', '' (map (\<lambda>(k, v). py_repr_str k @ '': '' @ py_repr v) kvs) @ ''}''"

text \<open>\<open>str(x)\<close>, which f-strings apply: a \<open>str\<close> is itself, everything else its \<open>repr\<close>.\<close>

definition py_str :: "json \<Rightarrow> string" where
  "py_str x = (case x of JStr s \<Rightarrow> s | _ \<Rightarrow> py_repr x)"

text \<open>The apostrophe that the f-strings of \<open>app.py\<close> put around names and values.\<close>

abbreviation (input) sq :: string where
  "sq \<equiv> [CHR 0x27]"

text \<open>\<open>type(x).__name__\<close>, for the interpreter's error messages.\<close>

fun py_type_name :: "json \<Rightarrow> string" where
  "py_type_name JNone = ''NoneType''"
| "py_type_name (JBool b) = ''bool''"
| "py_type_name (JInt i) = ''int''"
| "py_type_name (JFloat r) = ''float''"
| "py_type_name (JStr s) = ''str''"
| "py_type_name (JList xs) = ''list''"
| "py_type_name (JDict kvs) = ''dict''"

subsection \<open>Exceptions\<close>

text \<open>
  An exception is its class name and its message \<open>str(e)\<close>. The interpreter's own
  messages are worded as CPython 3.11 words them.
\<close>

datatype exn = Exn (exn_class: string) (exn_str: string)

text \<open>\<open>key in x\<close> for a string \<open>key\<close>.\<close>

fun is_substring :: "string \<Rightarrow> string \<Rightarrow> bool" where
  "is_substring key [] = (key = [])"
| "is_substring key (c # cs) = (take (length key) (c # cs) = key \<or> is_substring key cs)"

fun py_contains :: "json \<Rightarrow> string \<Rightarrow> exn + bool" where
  "py_contains (JDict kvs) key = Inr (key \<in> set (map fst kvs))"
| "py_contains (JList xs) key = Inr (JStr key \<in> set xs)"
| "py_contains (JStr s) key = Inr (is_substring key s)"
| "py_contains x key =
     Inl (Exn ''TypeError'' (''argument of type '' @ sq @ py_type_name x @ sq @ '' is not iterable''))"

text \<open>\<open>x[key]\<close> for a string \<open>key\<close>.\<close>

fun py_getitem :: "json \<Rightarrow> string \<Rightarrow> exn + json" where
  "py_getitem (JDict kvs) key =
     (case map_of kvs key of
        Some v \<Rightarrow> Inr v
      | None \<Rightarrow> Inl (Exn ''KeyError'' (py_repr_str key)))"
| "py_getitem (JList xs) key =
     Inl (Exn ''TypeError'' ''list indices must be integers or slices, not str'')"
| "py_getitem (JStr s) key =
     Inl (Exn ''TypeError'' (''string indices must be integers, not '' @ sq @ ''str'' @ sq))"
| "py_getitem x key =
     Inl (Exn ''TypeError'' (sq @ py_type_name x @ sq @ '' object is not subscriptable''))"

text \<open>\<open>x.get(key)\<close>: only a \<open>dict\<close> has the method; a missing key gives \<open>None\<close>.\<close>

definition dict_get :: "(string \<times> json) list \<Rightarrow> string \<Rightarrow> json" where
  "dict_get kvs key = (case map_of kvs key of Some v \<Rightarrow> v | None \<Rightarrow> JNone)"

fun py_get :: "json \<Rightarrow> string \<Rightarrow> exn + json" where
  "py_get (JDict kvs) key = Inr (dict_get kvs key)"
| "py_get x key =
     Inl (Exn ''AttributeError''
       (sq @ py_type_name x @ sq @ '' object has no attribute '' @ sq @ ''get'' @ sq))"

text \<open>The items \<open>for operation in x\<close> visits.\<close>

fun py_iter :: "json \<Rightarrow> exn + json list" where
  "py_iter (JList xs) = Inr xs"
| "py_iter (JDict kvs) = Inr (map (\<lambda>kv. JStr (fst kv)) kvs)"
| "py_iter (JStr s) = Inr (map (\<lambda>c. JStr [c]) s)"
| "py_iter x = Inl (Exn ''TypeError'' (sq @ py_type_name x @ sq @ '' object is not iterable''))"

text \<open>\<open>str.lower()\<close> on code points below 256.\<close>

definition py_lower_char :: "char \<Rightarrow> char" where
  "py_lower_char c =
     (let n = (of_char c :: nat)
      in if (65 \<le> n \<and> n \<le> 90) \<or> (192 \<le> n \<and> n \<le> 222 \<and> n \<noteq> 215) then char_of (n + 32) else c)"

definition py_lower :: "string \<Rightarrow> string" where
  "py_lower s = map py_lower_char s"

subsection \<open>Objects handed to \<open>jsonify\<close>\<close>

text \<open>
  \<open>pyval\<close> are the values a response is built from: the natively serialisable ones and,
  under \<open>PExt\<close>, the objects the JSON encoder passes to \<open>RobustJSONEncoder.default\<close>.
  Such an object carries what the encoder reads from it: \<open>int(obj)\<close> for a numpy integer,
  the \<open>repr\<close> of \<open>float(obj)\<close> for a numpy float and for a \<open>Decimal\<close>, \<open>obj.tolist()\<close> for
  an array, \<open>obj.isoformat()\<close> for a \<open>datetime\<close> and a \<open>pandas.Timestamp\<close>.
  \<open>PdNaT\<close> is \<open>pandas.NaT\<close>, \<open>PdNA\<close> any other scalar \<open>pandas.isna\<close> reports missing
  (\<open>pandas.NA\<close>), \<open>PdSeries\<close> a \<open>pandas.Series\<close>, and \<open>PyObject\<close> any other object, with
  its type's name.
\<close>

datatype pyobj =
    NpInteger int
  | NpFloating string
  | NdArray pyval
  | PyDatetime string
  | PdTimestamp string
  | PdNaT
  | PyDecimal string
  | PdNA
  | PdSeries "pyval list"
  | PyObject string
and pyval =
    PNone
  | PBool bool
  | PInt int
  | PFloat string
  | PStr string
  | PList "pyval list"
  | PTuple "pyval list"
  | PDict "(string \<times> pyval) list"
  | PExt pyobj

text \<open>\<open>d[k] = v\<close> on a \<open>dict\<close>: a new key goes last, a known key keeps its place.\<close>

definition py_setitem :: "(string \<times> 'v) list \<Rightarrow> string \<Rightarrow> 'v \<Rightarrow> (string \<times> 'v) list" where
  "py_setitem d k v = AList.update k v d"

section \<open>The JSON encoder\<close>

text \<open>
  \<open>RobustJSONEncoder.default\<close> (lines 16-29) is a chain of \<open>if\<close>/\<open>elif\<close> branches. Each
  branch is a test and a \<open>return\<close>; \<open>branch c obj\<close> is \<open>None\<close> when the test of branch
  \<open>c\<close> fails on \<open>obj\<close>, and otherwise what the branch does: the value it returns, or the
  exception its test raises (\<open>pd.isna\<close> answers with an array or a Series for such an
  object, and the truth value of that answer is a \<open>ValueError\<close>; for an array this is the
  case of two or more elements, which the chain never reaches).
\<close>

datatype category =
    Extended_integer
  | Extended_float
  | Numeric_array
  | Date_time
  | Fixed_decimal
  | Missing_sentinel

fun branch :: "category \<Rightarrow> pyobj \<Rightarrow> (exn + pyval) option" where
  "branch Extended_integer (NpInteger i) = Some (Inr (PInt i))"
| "branch Extended_float (NpFloating r) = Some (Inr (PFloat r))"
| "branch Numeric_array (NdArray v) = Some (Inr v)"
| "branch Date_time (PyDatetime t) = Some (Inr (PStr t))"
| "branch Date_time (PdTimestamp t) = Some (Inr (PStr t))"
| "branch Date_time PdNaT = Some (Inr (PStr ''NaT''))"
| "branch Fixed_decimal (PyDecimal r) = Some (Inr (PFloat r))"
| "branch Missing_sentinel PdNA = Some (Inr PNone)"
| "branch Missing_sentinel PdNaT = Some (Inr PNone)"
| "branch Missing_sentinel (NpFloating r) = (if r = ''nan'' then Some (Inr PNone) else None)"
| "branch Missing_sentinel (PyDecimal r) = (if r = ''nan'' then Some (Inr PNone) else None)"
| "branch Missing_sentinel (PdSeries vs) =
     Some (Inl (Exn ''ValueError''
       ''The truth value of a Series is ambiguous. Use a.empty, a.bool(), a.item(), a.any() or a.all().''))"
| "branch Missing_sentinel (NdArray v) =
     Some (Inl (Exn ''ValueError''
       ''The truth value of an array with more than one element is ambiguous. Use a.any() or a.all()''))"
| "branch c obj = None"

text \<open>The branches in the order the source tests them (lines 17, 19, 21, 23, 25, 27).\<close>

definition default_order :: "category list" where
  "default_order =
     [Extended_integer, Extended_float, Numeric_array, Date_time, Fixed_decimal, Missing_sentinel]"

fun first_match :: "category list \<Rightarrow> pyobj \<Rightarrow> (exn + pyval) option" where
  "first_match [] obj = None"
| "first_match (c # cs) obj = (case branch c obj of Some r \<Rightarrow> Some r | None \<Rightarrow> first_match cs obj)"

fun obj_type_name :: "pyobj \<Rightarrow> string" where
  "obj_type_name (NpInteger i) = ''int64''"
| "obj_type_name (NpFloating r) = ''float64''"
| "obj_type_name (NdArray v) = ''ndarray''"
| "obj_type_name (PyDatetime t) = ''datetime''"
| "obj_type_name (PdTimestamp t) = ''Timestamp''"
| "obj_type_name PdNaT = ''NaTType''"
| "obj_type_name (PyDecimal r) = ''Decimal''"
| "obj_type_name PdNA = ''NAType''"
| "obj_type_name (PdSeries vs) = ''Series''"
| "obj_type_name (PyObject n) = n"

text \<open>\<open>super().default(obj)\<close> (line 29) raises.\<close>

definition super_default :: "pyobj \<Rightarrow> exn" where
  "super_default obj =
     Exn ''TypeError'' (''Object of type '' @ obj_type_name obj @ '' is not JSON serializable'')"

definition RobustJSONEncoder_default :: "pyobj \<Rightarrow> exn + pyval" where
  "RobustJSONEncoder_default obj =
     (case first_match default_order obj of
        Some r \<Rightarrow> r
      | None \<Rightarrow> Inl (super_default obj))"



subsection \<open>\<open>jsonify\<close>\<close>

fun first_error :: "exn option list \<Rightarrow> exn option" where
  "first_error [] = None"
| "first_error (Some e # rs) = Some e"
| "first_error (None # rs) = first_error rs"

text \<open>
  The JSON encoder walks the value in order and calls \<open>default\<close> on every object it cannot
  serialise itself, then encodes what \<open>default\<close> returned. \<open>json_check\<close> is the first
  exception this raises, if any. What \<open>default\<close> returns for an object that is not an array
  is a scalar.
\<close>

fun json_check :: "pyval \<Rightarrow> exn option" where
  "json_check (PList xs) = first_error (map json_check xs)"
| "json_check (PTuple xs) = first_error (map json_check xs)"
| "json_check (PDict kvs) = first_error (map (\<lambda>(k, v). json_check v) kvs)"
| "json_check (PExt (NdArray v)) = json_check v"
| "json_check (PExt obj) = (case RobustJSONEncoder_default obj of Inl e \<Rightarrow> Some e | Inr v \<Rightarrow> None)"
| "json_check v = None"

datatype response = Response (status: nat) (body: pyval)

text \<open>\<open>jsonify(v)\<close> and \<open>jsonify(v), status\<close>.\<close>

definition jsonify :: "pyval \<Rightarrow> nat \<Rightarrow> exn + response" where
  "jsonify v code = (case json_check v of Some e \<Rightarrow> Inl e | None \<Rightarrow> Inr (Response code v))"

text \<open>\<open>jsonify({"error": msg}), status\<close>: a \<open>dict\<close> of one string always serialises.\<close>

definition error_response :: "nat \<Rightarrow> string \<Rightarrow> response" where
  "error_response code msg = Response code (PDict [(''error'', PStr msg)])"

section \<open>The automation binding\<close>

text \<open>
  The objects of \<open>xlwings\<close> and \<open>pandas\<close> as \<open>app.py\<close> uses them. A call that can raise
  has a result in \<open>exn + _\<close>.
\<close>

subsection \<open>Tables\<close>

text \<open>
  A \<open>DataFrame\<close> read with \<open>index=False\<close>: the column labels, the number of rows (the
  index is \<open>0, 1, ...\<close>) and the value at a row and column position.
\<close>

record dataframe =
  columns :: "string list"
  nrows :: nat
  at :: "nat \<Rightarrow> nat \<Rightarrow> pyval"

definition shape :: "dataframe \<Rightarrow> nat \<times> nat" where
  "shape df = (nrows df, length (columns df))"

definition empty_df :: "dataframe \<Rightarrow> bool" where
  "empty_df df = (nrows df = 0 \<or> columns df = [])"

definition row_values :: "dataframe \<Rightarrow> nat \<Rightarrow> pyval list" where
  "row_values df i = map (at df i) [0..<length (columns df)]"

text \<open>\<open>df.iterrows()\<close>: the index label and the values of each row.\<close>

definition iterrows :: "dataframe \<Rightarrow> (nat \<times> pyval list) list" where
  "iterrows df = map (\<lambda>i. (i, row_values df i)) [0..<nrows df]"

text \<open>
  \<open>row[col]\<close> for a label \<open>col\<close> of the row, whose labels are \<open>cols\<close>: the value
  under the label when the label stands once, and a \<open>Series\<close> of all the values under
  it when it stands several times.
\<close>

definition series_getitem :: "string list \<Rightarrow> pyval list \<Rightarrow> string \<Rightarrow> pyval" where
  "series_getitem cols vals col =
     (case map snd (filter (\<lambda>cv. fst cv = col) (zip cols vals)) of
        [v] \<Rightarrow> v
      | vs \<Rightarrow> PExt (PdSeries vs))"

text \<open>\<open>df.to_dict('records')\<close>: one \<open>dict\<close> per row; a label that stands twice keeps its last value.\<close>

definition to_dict_records :: "dataframe \<Rightarrow> pyval list" where
  "to_dict_records df =
     map (\<lambda>i. PDict (fold (\<lambda>cv d. py_setitem d (fst cv) (snd cv)) (zip (columns df) (row_values df i)) []))
       [0..<nrows df]"

subsection \<open>Ranges, sheets, books, application\<close>

text \<open>
  A used range has its anchor (\<open>row\<close>, \<open>column\<close>, counted from 1) and \<open>table\<close>, the result
  of \<open>options(pd.DataFrame, header=1, index=False).value\<close>.
\<close>

record xlrange =
  row :: nat
  column :: nat
  table :: "exn + dataframe option"

text \<open>
  A worksheet: \<open>ws_name\<close> is its \<open>name\<close>; \<open>cells\<close> are the assignments
  \<open>range(address).value = value\<close> it has accepted, \<open>assigned\<close> all those issued to it,
  each in order; \<open>refuses\<close> says which assignment the host raises on, given the accepted
  ones. An assignment that raises leaves \<open>cells\<close> as they are.
\<close>

record worksheet =
  ws_name :: string
  used_range :: "xlrange option"
  cells :: "(json \<times> json) list"
  assigned :: "(json \<times> json) list"
  refuses :: "(json \<times> json) list \<Rightarrow> json \<Rightarrow> json \<Rightarrow> exn option"

text \<open>A workbook: \<open>wb_name\<close> is its \<open>name\<close>, \<open>sheets\<close> is \<open>sheets[key]\<close>.\<close>

record workbook =
  wb_name :: string
  sheets :: "json \<Rightarrow> exn + worksheet"
  sheets_active :: "exn + worksheet option"

record excel_app =
  books :: "json \<Rightarrow> exn + workbook"
  books_active :: "exn + workbook option"

record xlwings =
  apps_active :: "exn + excel_app option"

text \<open>\<open>worksheet.range(address).value = value\<close>.\<close>

definition range_set_value :: "worksheet \<Rightarrow> json \<Rightarrow> json \<Rightarrow> exn option \<times> worksheet" where
  "range_set_value ws address v =
     (let ws1 = ws\<lparr>assigned := assigned ws @ [(address, v)]\<rparr>
      in case refuses ws (cells ws) address v of
           Some e \<Rightarrow> (Some e, ws1)
         | None \<Rightarrow> (None, ws1\<lparr>cells := cells ws @ [(address, v)]\<rparr>))"

section \<open>Resource locator\<close>

definition get_excel_app :: "xlwings \<Rightarrow> excel_app option" where
  "get_excel_app xw = (case apps_active xw of Inl e \<Rightarrow> None | Inr a \<Rightarrow> a)"

definition get_active_workbook :: "xlwings \<Rightarrow> excel_app option \<Rightarrow> workbook option" where
  "get_active_workbook xw app =
     (case (case app of None \<Rightarrow> get_excel_app xw | Some a \<Rightarrow> Some a) of
        None \<Rightarrow> None
      | Some a \<Rightarrow> (case books_active a of Inl e \<Rightarrow> None | Inr w \<Rightarrow> w))"

definition get_worksheet :: "workbook \<Rightarrow> json \<Rightarrow> worksheet option" where
  "get_worksheet workbook sheet_name =
     (if py_truthy sheet_name then
        (case sheets workbook sheet_name of Inl e \<Rightarrow> None | Inr ws \<Rightarrow> Some ws)
      else (case sheets_active workbook of Inl e \<Rightarrow> None | Inr ws \<Rightarrow> ws))"

text \<open>
  Lines 88-109 of \<open>get_excel_data\<close> and lines 160-181 of \<open>write_excel_data\<close> are the same
  statements: application, then workbook (named or active), then worksheet (named or
  active). \<open>Inl\<close> is the response the handler returns at once.
\<close>

definition resolve_target :: "xlwings \<Rightarrow> json \<Rightarrow> json \<Rightarrow> response + workbook \<times> worksheet" where
  "resolve_target xw workbook_name sheet_name =
     (case get_excel_app xw of
        None \<Rightarrow> Inl (error_response 503 ''No Excel application running'')
      | Some excel_app \<Rightarrow>
          (case (if py_truthy workbook_name then
                   (case books excel_app workbook_name of
                      Inl e \<Rightarrow>
                        Inl (error_response 404
                          (''Workbook '' @ sq @ py_str workbook_name @ sq @ '' not found''))
                    | Inr wb \<Rightarrow> Inr wb)
                 else
                   (case get_active_workbook xw (Some excel_app) of
                      None \<Rightarrow> Inl (error_response 404 ''No active workbook found'')
                    | Some wb \<Rightarrow> Inr wb)) of
             Inl r \<Rightarrow> Inl r
           | Inr workbook \<Rightarrow>
               (case get_worksheet workbook sheet_name of
                  None \<Rightarrow>
                    (if py_truthy sheet_name then
                       Inl (error_response 404
                         (''Sheet '' @ sq @ py_str sheet_name @ sq @ '' not found in workbook ''
                            @ sq @ wb_name workbook @ sq))
                     else Inl (error_response 404 ''No active worksheet found''))
                | Some worksheet \<Rightarrow> Inr (workbook, worksheet))))"

section \<open>Tabular read handler\<close>

text \<open>The capital letters, counted from 0.\<close>

definition letter_char :: "nat \<Rightarrow> char" where
  "letter_char d = ''ABCDEFGHIJKLMNOPQRSTUVWXYZ'' ! d"

text \<open>
  Modelled from the spec: \<open>xw.utils.int_to_col_letter\<close> belongs to the automation
  library and is not in the repository. Section 4.4 calls it the standard column-letter
  encoding, 1 to A, 26 to Z, 27 to AA: bijective base 26. A number below 1 has no letter.
\<close>

function int_to_col_letter :: "nat \<Rightarrow> string" where
  "int_to_col_letter n =
     (if n = 0 then []
      else int_to_col_letter ((n - 1) div 26) @ [letter_char ((n - 1) mod 26)])"
  by pat_completeness auto
termination
  by (relation "measure id") auto

declare int_to_col_letter.simps [simp del]

text \<open>The query string: \<open>request.args.get(name)\<close> is \<open>None\<close> or a \<open>str\<close>.\<close>

record query_args =
  workbook_arg :: "string option"
  sheet_arg :: "string option"
  include_cell_mapping_arg :: "string option"

definition args_get :: "string option \<Rightarrow> json" where
  "args_get a = (case a of None \<Rightarrow> JNone | Some s \<Rightarrow> JStr s)"

text \<open>Line 86: \<open>request.args.get('include_cell_mapping', 'true').lower() == 'true'\<close>.\<close>

definition include_cell_mapping :: "query_args \<Rightarrow> bool" where
  "include_cell_mapping args =
     (py_lower (case include_cell_mapping_arg args of None \<Rightarrow> ''true'' | Some s \<Rightarrow> s) = ''true'')"

text \<open>Line 138: the address of the value at row \<open>i\<close> and column \<open>j\<close> of the table.\<close>

definition cell_addr :: "nat \<Rightarrow> nat \<Rightarrow> nat \<Rightarrow> nat \<Rightarrow> string" where
  "cell_addr start_row start_col i j =
     int_to_col_letter (start_col + j) @ py_str_int (int (start_row + i + 1))"

text \<open>Lines 132-139: the two loops that fill \<open>cell_mapping\<close>.\<close>

definition build_cell_mapping :: "xlrange \<Rightarrow> dataframe \<Rightarrow> (string \<times> pyval) list" where
  "build_cell_mapping used df =
     (let start_row = row used; start_col = column used
      in fold (\<lambda>(i, r) cell_mapping.
                 fold (\<lambda>(j, col) cell_mapping.
                         py_setitem cell_mapping (cell_addr start_row start_col i j)
                           (series_getitem (columns df) r col))
                   (enumerate 0 (columns df)) cell_mapping)
           (iterrows df) [])"

text \<open>Lines 123-141: the \<open>dict\<close> \<open>response_data\<close>.\<close>

definition response_data ::
  "bool \<Rightarrow> workbook \<Rightarrow> worksheet \<Rightarrow> xlrange \<Rightarrow> dataframe \<Rightarrow> (string \<times> pyval) list" where
  "response_data with_mapping workbook worksheet used df =
     (let d = [(''workbook'', PStr (wb_name workbook)),
               (''sheet'', PStr (ws_name worksheet)),
               (''data'', PList (to_dict_records df)),
               (''shape'', PTuple [PInt (int (fst (shape df))), PInt (int (snd (shape df)))])]
      in if with_mapping \<and> fst (shape df) \<le> 100
         then py_setitem d ''cell_mapping'' (PDict (build_cell_mapping used df))
         else d)"

text \<open>Lines 111-143, once the worksheet is known.\<close>

definition read_worksheet :: "bool \<Rightarrow> workbook \<Rightarrow> worksheet \<Rightarrow> exn + response" where
  "read_worksheet with_mapping workbook worksheet =
     (case used_range worksheet of
        None \<Rightarrow> Inr (error_response 404 ''No data found in worksheet'')
      | Some used \<Rightarrow>
          (case table used of
             Inl e \<Rightarrow> Inl e
           | Inr None \<Rightarrow> Inr (error_response 404 ''No data found in worksheet'')
           | Inr (Some df) \<Rightarrow>
               if empty_df df then Inr (error_response 404 ''No data found in worksheet'')
               else jsonify (PDict (response_data with_mapping workbook worksheet used df)) 200))"

text \<open>The body of the \<open>try\<close> of \<open>get_excel_data\<close> (lines 83-143).\<close>

definition get_excel_data_try :: "xlwings \<Rightarrow> query_args \<Rightarrow> exn + response" where
  "get_excel_data_try xw args =
     (let workbook_name = args_get (workbook_arg args);
          sheet_name = args_get (sheet_arg args)
      in case resolve_target xw workbook_name sheet_name of
           Inl r \<Rightarrow> Inr r
         | Inr (workbook, worksheet) \<Rightarrow>
             read_worksheet (include_cell_mapping args) workbook worksheet)"

text \<open>\<open>GET /api/excel-data\<close>: an exception becomes a 500 with its message (lines 145-146).\<close>

definition get_excel_data :: "xlwings \<Rightarrow> query_args \<Rightarrow> response" where
  "get_excel_data xw args =
     (case get_excel_data_try xw args of
        Inl e \<Rightarrow> error_response 500 (exn_str e)
      | Inr r \<Rightarrow> r)"

section \<open>Batch write handler\<close>

definition success_record :: "string \<Rightarrow> pyval" where
  "success_record msg = PDict [(''success'', PStr msg)]"

definition error_record :: "string \<Rightarrow> pyval" where
  "error_record msg = PDict [(''error'', PStr msg)]"

text \<open>
  The body of the loop (lines 186-217) for one operation: the record appended to
  \<open>results\<close>, or the exception that leaves the loop, and the worksheet afterwards.
\<close>

definition process_operation :: "worksheet \<Rightarrow> json \<Rightarrow> (exn + pyval) \<times> worksheet" where
  "process_operation worksheet operation =
     (case py_get operation ''type'' of
        Inl e \<Rightarrow> (Inl e, worksheet)
      | Inr op_type \<Rightarrow>
          if op_type = JStr ''write_cell'' then
            (case (py_get operation ''cell'', py_get operation ''value'') of
               (Inr cell, Inr v) \<Rightarrow>
                 if \<not> py_truthy cell then
                   (Inr (error_record ''Cell address required for write_cell operation''), worksheet)
                 else
                   (case range_set_value worksheet cell v of
                      (None, ws) \<Rightarrow>
                        (Inr (success_record
                           (''Written '' @ sq @ py_str v @ sq @ '' to cell '' @ py_str cell)), ws)
                    | (Some e, ws) \<Rightarrow>
                        (Inr (error_record
                           (''Failed to write to cell '' @ py_str cell @ '': '' @ exn_str e)), ws))
             | (Inl e, _) \<Rightarrow> (Inl e, worksheet)
             | (_, Inl e) \<Rightarrow> (Inl e, worksheet))
          else if op_type = JStr ''write_range'' then
            (case (py_get operation ''range'', py_get operation ''values'') of
               (Inr range_addr, Inr vs) \<Rightarrow>
                 if \<not> py_truthy range_addr \<or> \<not> py_truthy vs then
                   (Inr (error_record ''Range and values required for write_range operation''), worksheet)
                 else
                   (case range_set_value worksheet range_addr vs of
                      (None, ws) \<Rightarrow>
                        (Inr (success_record (''Written data to range '' @ py_str range_addr)), ws)
                    | (Some e, ws) \<Rightarrow>
                        (Inr (error_record
                           (''Failed to write to range '' @ py_str range_addr @ '': '' @ exn_str e)), ws))
             | (Inl e, _) \<Rightarrow> (Inl e, worksheet)
             | (_, Inl e) \<Rightarrow> (Inl e, worksheet))
          else
            (Inr (error_record (''Unknown operation type: '' @ py_str op_type)), worksheet))"

text \<open>The loop of lines 185-217, with \<open>results\<close> as it grows.\<close>

fun process_operations ::
  "worksheet \<Rightarrow> json list \<Rightarrow> pyval list \<Rightarrow> (exn + pyval list) \<times> worksheet" where
  "process_operations worksheet [] results = (Inr results, worksheet)"
| "process_operations worksheet (operation # rest) results =
     (case process_operation worksheet operation of
        (Inl e, ws) \<Rightarrow> (Inl e, ws)
      | (Inr r, ws) \<Rightarrow> process_operations ws rest (results @ [r]))"

text \<open>
  The body of the \<open>try\<close> of \<open>write_excel_data\<close> (lines 152-219), with the worksheet as the
  request leaves it (\<open>None\<close> when none was reached).
\<close>

definition write_excel_data_try :: "xlwings \<Rightarrow> json \<Rightarrow> (exn + response) \<times> worksheet option" where
  "write_excel_data_try xw data =
     (if \<not> py_truthy data then (Inr (error_response 400 ''No operations provided''), None)
      else
        (case py_contains data ''operations'' of
           Inl e \<Rightarrow> (Inl e, None)
         | Inr has_operations \<Rightarrow>
             if \<not> has_operations then (Inr (error_response 400 ''No operations provided''), None)
             else
               (case py_getitem data ''operations'' of
                  Inl e \<Rightarrow> (Inl e, None)
                | Inr operations \<Rightarrow>
                    (case py_get data ''workbook'' of
                       Inl e \<Rightarrow> (Inl e, None)
                     | Inr workbook_name \<Rightarrow>
                         (case py_get data ''sheet'' of
                            Inl e \<Rightarrow> (Inl e, None)
                          | Inr sheet_name \<Rightarrow>
                              (case resolve_target xw workbook_name sheet_name of
                                 Inl r \<Rightarrow> (Inr r, None)
                               | Inr (workbook, worksheet) \<Rightarrow>
                                   (case py_iter operations of
                                      Inl e \<Rightarrow> (Inl e, Some worksheet)
                                    | Inr ops \<Rightarrow>
                                        (case process_operations worksheet ops [] of
                                           (Inl e, ws) \<Rightarrow> (Inl e, Some ws)
                                         | (Inr results, ws) \<Rightarrow>
                                             (jsonify (PDict [(''results'', PList results)]) 200,
                                              Some ws)))))))))"

text \<open>\<open>POST /api/write-excel\<close>: an exception becomes a 500 with its message (lines 221-222).\<close>

definition write_excel_data :: "xlwings \<Rightarrow> json \<Rightarrow> response \<times> worksheet option" where
  "write_excel_data xw data =
     (case write_excel_data_try xw data of
        (Inl e, ws) \<Rightarrow> (error_response 500 (exn_str e), ws)
      | (Inr r, ws) \<Rightarrow> (r, ws))"

text \<open>Whether the JSON object of a response has a field.\<close>

definition has_field :: "response \<Rightarrow> string \<Rightarrow> bool" where
  "has_field r k = (case body r of PDict kvs \<Rightarrow> k \<in> set (map fst kvs) | _ \<Rightarrow> False)"


section \<open>Notions the properties are stated with\<close>

text \<open>A JSON object, the shape of a write operation.\<close>

fun is_dict :: "json \<Rightarrow> bool" where
  "is_dict (JDict kvs) = True"
| "is_dict x = False"

text \<open>Two states of a worksheet that differ at most in the log of issued assignments.\<close>

definition same_sheet :: "worksheet \<Rightarrow> worksheet \<Rightarrow> bool" where
  "same_sheet ws ws' = (ws' = ws\<lparr>assigned := assigned ws'\<rparr>)"






section \<open>A sample host\<close>

text \<open>
  One application with one open workbook \<open>Book1\<close> and its sheet \<open>Sheet1\<close>, whose used
  range is anchored at B3 and holds a header and two rows. The host raises on the address
  \<open>!\<close>. Looking up another name raises \<open>KeyError\<close>.
\<close>

definition sample_table :: dataframe where
  "sample_table =
     \<lparr>columns = [''Name'', ''Age''], nrows = 2,
      at = (\<lambda>i j. if j = 0 then PStr (if i = 0 then ''Alice'' else ''Bob'') else PFloat (if i = 0 then ''25.0'' else ''30.0''))\<rparr>"

definition sample_range :: xlrange where
  "sample_range = \<lparr>row = 3, column = 2, table = Inr (Some sample_table)\<rparr>"

definition sample_refuses :: "(json \<times> json) list \<Rightarrow> json \<Rightarrow> json \<Rightarrow> exn option" where
  "sample_refuses accepted address v =
     (if address = JStr ''!'' then Some (Exn ''ValueError'' ''invalid address'') else None)"

definition sample_sheet :: worksheet where
  "sample_sheet =
     \<lparr>ws_name = ''Sheet1'', used_range = Some sample_range, cells = [], assigned = [],
      refuses = sample_refuses\<rparr>"

definition sample_book :: workbook where
  "sample_book =
     \<lparr>wb_name = ''Book1'',
      sheets = (\<lambda>k. if k = JStr ''Sheet1'' then Inr sample_sheet
                     else Inl (Exn ''KeyError'' (py_repr k))),
      sheets_active = Inr (Some sample_sheet)\<rparr>"

definition sample_app :: excel_app where
  "sample_app =
     \<lparr>books = (\<lambda>k. if k = JStr ''Book1'' then Inr sample_book
                    else Inl (Exn ''KeyError'' (py_repr k))),
      books_active = Inr (Some sample_book)\<rparr>"

definition sample_xw :: xlwings where
  "sample_xw = \<lparr>apps_active = Inr (Some sample_app)\<rparr>"

definition no_args :: query_args where
  "no_args = \<lparr>workbook_arg = None, sheet_arg = None, include_cell_mapping_arg = None\<rparr>"

text \<open>The operations of the examples in section 8 of the specification.\<close>

definition test_value_op :: json where
  "test_value_op =
     JDict [(''type'', JStr ''write_cell''), (''cell'', JStr ''A1''), (''value'', JStr ''Test Value'')]"

definition bogus_op :: json where
  "bogus_op = JDict [(''type'', JStr ''bogus'')]"

definition cell_only_op :: json where
  "cell_only_op = JDict [(''type'', JStr ''write_cell''), (''cell'', JStr ''A1'')]"



section \<open>The sample host\<close>

lemma sample_resolves:
  "resolve_target sample_xw JNone JNone = Inr (sample_book, sample_sheet)"
  by (simp add: resolve_target_def get_excel_app_def sample_xw_def get_active_workbook_def
      sample_app_def get_worksheet_def sample_book_def)



section \<open>Properties of the batch write handler\<close>

subsection \<open>One operation\<close>

lemma same_sheet_refl [simp]: "same_sheet ws ws"
  by (simp add: same_sheet_def)

lemma same_sheet_fields:
  "same_sheet ws ws' \<Longrightarrow> cells ws' = cells ws \<and> refuses ws' = refuses ws"
  by (cases ws, cases ws') (simp add: same_sheet_def)

lemma same_sheet_sym: "same_sheet a b \<Longrightarrow> same_sheet b a"
  by (cases a, cases b) (simp add: same_sheet_def)

lemma range_set_value_same:
  assumes "same_sheet ws ws'"
  shows "fst (range_set_value ws' a v) = fst (range_set_value ws a v)
       \<and> same_sheet (snd (range_set_value ws a v)) (snd (range_set_value ws' a v))"
  using assms
  by (cases ws, cases ws') (auto simp: same_sheet_def range_set_value_def Let_def split: option.splits)

lemma range_set_value_refused:
  "fst (range_set_value ws a v) = Some e \<Longrightarrow> same_sheet ws (snd (range_set_value ws a v))"
  by (cases ws) (auto simp: same_sheet_def range_set_value_def Let_def split: option.splits)

lemma process_operation_dict_total:
  "is_dict operation \<Longrightarrow> \<exists>r ws'. process_operation ws operation = (Inr r, ws')"
  by (cases operation) (auto simp: process_operation_def split: prod.splits option.splits)

lemma process_operation_same:
  assumes "same_sheet ws ws'"
  shows "fst (process_operation ws' operation) = fst (process_operation ws operation)
       \<and> same_sheet (snd (process_operation ws operation)) (snd (process_operation ws' operation))"
proof (cases "py_get operation ''type''")
  case (Inl e)
  then show ?thesis using assms by (simp add: process_operation_def)
next
  case (Inr op_type)
  then obtain kvs where op: "operation = JDict kvs"
    by (cases operation) auto
  have rs: "\<And>a v. fst (range_set_value ws' a v) = fst (range_set_value ws a v)
       \<and> same_sheet (snd (range_set_value ws a v)) (snd (range_set_value ws' a v))"
    using range_set_value_same [OF assms] by blast
  show ?thesis
    using assms rs [of "dict_get kvs ''cell''" "dict_get kvs ''value''"]
      rs [of "dict_get kvs ''range''" "dict_get kvs ''values''"]
    by (auto simp: op process_operation_def split: prod.splits option.splits)
qed

lemma error_not_success [simp]: "error_record m \<noteq> success_record m'" "success_record m' \<noteq> error_record m"
  by (simp_all add: error_record_def success_record_def)

lemma process_operation_error_same:
  assumes "process_operation ws operation = (Inr (error_record m), ws')"
  shows "same_sheet ws ws'"
proof -
  from assms obtain kvs where op: "operation = JDict kvs"
    by (cases operation) (auto simp: process_operation_def)
  have rs: "\<And>a v e. fst (range_set_value ws a v) = Some e \<Longrightarrow> same_sheet ws (snd (range_set_value ws a v))"
    by (rule range_set_value_refused)
  show ?thesis
    using assms rs [of "dict_get kvs ''cell''" "dict_get kvs ''value''"]
      rs [of "dict_get kvs ''range''" "dict_get kvs ''values''"]
    by (auto simp: op process_operation_def split: prod.splits option.splits if_splits)
qed

subsection \<open>The loop\<close>

lemma process_operations_acc:
  "process_operations ws ops acc =
     (case process_operations ws ops [] of
        (Inl e, w) \<Rightarrow> (Inl e, w)
      | (Inr rs, w) \<Rightarrow> (Inr (acc @ rs), w))"
proof (induction ops arbitrary: ws acc)
  case Nil
  then show ?case by simp
next
  case (Cons operation rest)
  show ?case
  proof (cases "process_operation ws operation")
    case (Pair res w)
    show ?thesis
    proof (cases res)
      case (Inl e)
      with Pair show ?thesis by simp
    next
      case (Inr r)
      have a: "process_operations w rest (acc @ [r]) =
        (case process_operations w rest [] of (Inl e, w') \<Rightarrow> (Inl e, w') | (Inr rs, w') \<Rightarrow> (Inr ((acc @ [r]) @ rs), w'))"
        by (rule Cons.IH)
      have b: "process_operations w rest [r] =
        (case process_operations w rest [] of (Inl e, w') \<Rightarrow> (Inl e, w') | (Inr rs, w') \<Rightarrow> (Inr ([r] @ rs), w'))"
        by (rule Cons.IH)
      show ?thesis
        using Pair Inr a b by (auto split: prod.splits sum.splits)
    qed
  qed
qed

lemma process_operations_Cons:
  "process_operations ws (operation # rest) [] =
     (case process_operation ws operation of
        (Inl e, w) \<Rightarrow> (Inl e, w)
      | (Inr r, w) \<Rightarrow>
          (case process_operations w rest [] of
             (Inl e, w') \<Rightarrow> (Inl e, w')
           | (Inr rs, w') \<Rightarrow> (Inr (r # rs), w')))"
  using process_operations_acc [of _ rest "[_]"]
  by (auto split: prod.splits sum.splits)

lemma process_operations_append:
  "process_operations ws (xs @ ys) [] =
     (case process_operations ws xs [] of
        (Inl e, w) \<Rightarrow> (Inl e, w)
      | (Inr rs, w) \<Rightarrow>
          (case process_operations w ys [] of
             (Inl e, w') \<Rightarrow> (Inl e, w')
           | (Inr rs', w') \<Rightarrow> (Inr (rs @ rs'), w')))"
proof (induction xs arbitrary: ws)
  case Nil
  then show ?case by (auto split: prod.splits sum.splits)
next
  case (Cons x xs)
  show ?case
    unfolding append_Cons process_operations_Cons Cons.IH
    by (auto split: prod.splits sum.splits)
qed

lemma process_operations_dicts:
  "\<forall>operation \<in> set ops. is_dict operation \<Longrightarrow>
     \<exists>rs w. process_operations ws ops [] = (Inr rs, w) \<and> length rs = length ops"
proof (induction ops arbitrary: ws)
  case Nil
  then show ?case by simp
next
  case (Cons x xs)
  then obtain r w where x: "process_operation ws x = (Inr r, w)"
    using process_operation_dict_total [of x ws] by auto
  from Cons obtain rs w' where xs: "process_operations w xs [] = (Inr rs, w')" "length rs = length xs"
    by (metis list.set_intros(2))
  show ?case
    unfolding process_operations_Cons using x xs by simp
qed

lemma process_operations_same:
  assumes "same_sheet ws ws'"
  shows "fst (process_operations ws' ops []) = fst (process_operations ws ops [])
       \<and> same_sheet (snd (process_operations ws ops [])) (snd (process_operations ws' ops []))"
  using assms
proof (induction ops arbitrary: ws ws')
  case Nil
  then show ?case by simp
next
  case (Cons x xs)
  obtain res w where a: "process_operation ws x = (res, w)" by (cases "process_operation ws x")
  obtain res' w' where b: "process_operation ws' x = (res', w')" by (cases "process_operation ws' x")
  from process_operation_same [OF Cons.prems, of x] a b
  have eq: "res' = res" and ss: "same_sheet w w'" by simp_all
  show ?case
  proof (cases res)
    case (Inl e)
    then show ?thesis unfolding process_operations_Cons using a b eq ss by simp
  next
    case (Inr r)
    from Cons.IH [OF ss] show ?thesis
      unfolding process_operations_Cons using a b eq Inr
      by (auto split: prod.splits sum.splits)
  qed
qed

lemma process_operations_length:
  "process_operations ws ops [] = (Inr rs, w) \<Longrightarrow> length rs = length ops"
proof (induction ops arbitrary: ws rs)
  case Nil
  then show ?case by simp
next
  case (Cons x xs)
  then show ?case
    unfolding process_operations_Cons
    by (auto split: prod.splits sum.splits)
qed

lemma process_operations_nth:
  assumes "process_operations ws ops [] = (Inr rs, w)" and "i < length ops"
  shows "fst (process_operation (snd (process_operations ws (take i ops) [])) (ops ! i)) = Inr (rs ! i)"
proof -
  have split: "ops = take i ops @ (ops ! i) # drop (Suc i) ops"
    using assms(2) by (simp add: id_take_nth_drop)
  obtain res1 w1 where p1: "process_operations ws (take i ops) [] = (res1, w1)"
    by (cases "process_operations ws (take i ops) []")
  obtain res2 w2 where p2: "process_operation w1 (ops ! i) = (res2, w2)"
    by (cases "process_operation w1 (ops ! i)")
  obtain res3 w3 where p3: "process_operations w2 (drop (Suc i) ops) [] = (res3, w3)"
    by (cases "process_operations w2 (drop (Suc i) ops) []")
  have "process_operations ws (take i ops @ (ops ! i) # drop (Suc i) ops) [] = (Inr rs, w)"
    using assms(1) split by simp
  then obtain rs1 r rs3 where "res1 = Inr rs1" "res2 = Inr r" "res3 = Inr rs3" "rs = rs1 @ r # rs3"
    unfolding process_operations_append process_operations_Cons using p1 p2 p3
    by (auto split: sum.splits)
  moreover have "length rs1 = i"
    using process_operations_length [of ws "take i ops" rs1 w1] p1 calculation(1) assms(2) by simp
  ultimately show ?thesis using p1 p2 by (simp add: nth_append)
qed

lemma process_operation_record:
  "process_operation ws operation = (Inr r, w) \<Longrightarrow> (\<exists>m. r = success_record m \<or> r = error_record m)"
  by (cases operation)
    (auto simp: process_operation_def split: prod.splits option.splits if_splits)

lemma json_check_record:
  "json_check (success_record m) = None" "json_check (error_record m) = None"
  by (simp_all add: success_record_def error_record_def)

lemma process_operations_records:
  "process_operations ws ops [] = (Inr rs, w) \<Longrightarrow> first_error (map json_check rs) = None"
proof (induction ops arbitrary: ws rs)
  case Nil
  then show ?case by simp
next
  case (Cons x xs)
  from Cons.prems obtain r w1 rs' where
    x: "process_operation ws x = (Inr r, w1)" and
    xs: "process_operations w1 xs [] = (Inr rs', w)" and rs: "rs = r # rs'"
    unfolding process_operations_Cons by (auto split: prod.splits sum.splits)
  from process_operation_record [OF x] have "json_check r = None"
    by (auto simp: json_check_record)
  with Cons.IH [OF xs] rs show ?case by simp
qed

lemma process_operations_drop_failed:
  assumes "process_operations ws ops [] = (Inr rs, w)" and "k < length ops"
    and "rs ! k = error_record m"
  shows "\<exists>w'. process_operations ws (take k ops @ drop (Suc k) ops) [] =
           (Inr (take k rs @ drop (Suc k) rs), w') \<and> same_sheet w' w"
proof -
  have split: "ops = take k ops @ (ops ! k) # drop (Suc k) ops"
    using assms(2) by (simp add: id_take_nth_drop)
  obtain res1 w1 where p1: "process_operations ws (take k ops) [] = (res1, w1)"
    by (cases "process_operations ws (take k ops) []")
  obtain res2 w2 where p2: "process_operation w1 (ops ! k) = (res2, w2)"
    by (cases "process_operation w1 (ops ! k)")
  obtain res3 w3 where p3: "process_operations w2 (drop (Suc k) ops) [] = (res3, w3)"
    by (cases "process_operations w2 (drop (Suc k) ops) []")
  have "process_operations ws (take k ops @ (ops ! k) # drop (Suc k) ops) [] = (Inr rs, w)"
    using assms(1) split by simp
  then obtain rs1 r rs3 where
    res: "res1 = Inr rs1" "res2 = Inr r" "res3 = Inr rs3" and rs: "rs = rs1 @ r # rs3" and w: "w = w3"
    unfolding process_operations_append process_operations_Cons using p1 p2 p3
    by (auto split: sum.splits)
  have len: "length rs1 = k"
    using process_operations_length [of ws "take k ops" rs1 w1] p1 res(1) assms(2) by simp
  then have "r = error_record m"
    using assms(3) rs by (simp add: nth_append)
  then have same: "same_sheet w1 w2"
    using process_operation_error_same [of w1 "ops ! k" m w2] p2 res(2) by simp
  obtain res3' w3' where p3': "process_operations w1 (drop (Suc k) ops) [] = (res3', w3')"
    by (cases "process_operations w1 (drop (Suc k) ops) []")
  from process_operations_same [OF same, of "drop (Suc k) ops"] p3 p3'
  have "res3' = res3" and "same_sheet w3' w3" by simp_all
  then have "process_operations ws (take k ops @ drop (Suc k) ops) [] = (Inr (rs1 @ rs3), w3')"
    unfolding process_operations_append using p1 p3' res by simp
  moreover have "take k rs = rs1" "drop (Suc k) rs = rs3"
    using len rs by simp_all
  ultimately show ?thesis
    using \<open>same_sheet w3' w3\<close> w by auto
qed

lemma write_excel_data_dict:
  assumes "map_of kvs ''operations'' = Some (JList ops)"
    and "resolve_target xw (dict_get kvs ''workbook'') (dict_get kvs ''sheet'') = Inr (wb, ws)"
    and "process_operations ws ops [] = (Inr rs, w)"
  shows "write_excel_data xw (JDict kvs) = (Response 200 (PDict [(''results'', PList rs)]), Some w)"
proof -
  from assms(1) have ne: "kvs \<noteq> []" by auto
  from assms(1) have mem: "''operations'' \<in> fst ` set kvs"
    by (metis domI dom_map_of_conv_image_fst)
  have ok: "json_check (PDict [(''results'', PList rs)]) = None"
    using process_operations_records [OF assms(3)] by simp
  show ?thesis
    using assms ne mem ok
    by (simp add: write_excel_data_def write_excel_data_try_def jsonify_def)
qed

text \<open>
  Claim C1, as amended. For every \<open>POST /api/write-excel\<close> request whose body is a JSON
  object with a list of JSON objects under \<open>operations\<close> and whose application, workbook
  and worksheet resolve, the response is 200 and \<open>results\<close> has one entry per operation,
  in order: entry \<open>i\<close> is what operation \<open>i\<close> yields on the worksheet as the operations
  before it left it. When an entry is an error record (missing fields, write exception,
  unknown type), the same request without that operation answers with the same entries
  but that one, and leaves the same cells written.
\<close>

theorem write_excel_batch:
  assumes "map_of kvs ''operations'' = Some (JList ops)"
    and "\<forall>operation \<in> set ops. is_dict operation"
    and "resolve_target xw (dict_get kvs ''workbook'') (dict_get kvs ''sheet'') = Inr (wb, ws)"
  shows "\<exists>results ws'.
      write_excel_data xw (JDict kvs) =
        (Response 200 (PDict [(''results'', PList results)]), Some ws')
    \<and> length results = length ops
    \<and> (\<forall>i<length ops.
          fst (process_operation (snd (process_operations ws (take i ops) [])) (ops ! i))
            = Inr (results ! i))
    \<and> (\<forall>k<length ops. \<forall>m. results ! k = error_record m \<longrightarrow>
          (\<exists>ws''.
             write_excel_data xw
               (JDict (py_setitem kvs ''operations'' (JList (take k ops @ drop (Suc k) ops)))) =
               (Response 200 (PDict [(''results'', PList (take k results @ drop (Suc k) results))]),
                Some ws'')
           \<and> cells ws'' = cells ws'))"
proof -
  from process_operations_dicts [OF assms(2), of ws]
  obtain rs w where run: "process_operations ws ops [] = (Inr rs, w)" and len: "length rs = length ops"
    by blast
  have resp: "write_excel_data xw (JDict kvs) = (Response 200 (PDict [(''results'', PList rs)]), Some w)"
    by (rule write_excel_data_dict [OF assms(1) assms(3) run])
  have pos: "\<forall>i<length ops.
      fst (process_operation (snd (process_operations ws (take i ops) [])) (ops ! i)) = Inr (rs ! i)"
    using process_operations_nth [OF run] by blast
  have drop: "\<forall>k<length ops. \<forall>m. rs ! k = error_record m \<longrightarrow>
      (\<exists>ws''. write_excel_data xw
           (JDict (py_setitem kvs ''operations'' (JList (take k ops @ drop (Suc k) ops)))) =
           (Response 200 (PDict [(''results'', PList (take k rs @ drop (Suc k) rs))]), Some ws'')
         \<and> cells ws'' = cells w)"
  proof (intro allI impI)
    fix k m
    assume k: "k < length ops" and failed: "rs ! k = error_record m"
    let ?kvs = "py_setitem kvs ''operations'' (JList (take k ops @ drop (Suc k) ops))"
    from process_operations_drop_failed [OF run k failed]
    obtain w' where run': "process_operations ws (take k ops @ drop (Suc k) ops) [] =
        (Inr (take k rs @ drop (Suc k) rs), w')" and same: "same_sheet w' w"
      by blast
    have a: "map_of ?kvs ''operations'' = Some (JList (take k ops @ drop (Suc k) ops))"
      by (simp add: py_setitem_def update_conv')
    have b: "dict_get ?kvs ''workbook'' = dict_get kvs ''workbook''"
      "dict_get ?kvs ''sheet'' = dict_get kvs ''sheet''"
      by (simp_all add: py_setitem_def dict_get_def update_conv')
    have "write_excel_data xw (JDict ?kvs) =
        (Response 200 (PDict [(''results'', PList (take k rs @ drop (Suc k) rs))]), Some w')"
      using write_excel_data_dict [OF a _ run'] assms(3) b by simp
    moreover have "cells w' = cells w"
      using same_sheet_fields [OF same_sheet_sym [OF same]] by simp
    ultimately show "\<exists>ws''. write_excel_data xw (JDict ?kvs) =
           (Response 200 (PDict [(''results'', PList (take k rs @ drop (Suc k) rs))]), Some ws'')
         \<and> cells ws'' = cells w"
      by blast
  qed
  from resp len pos drop show ?thesis by blast
qed

theorem write_excel_batch_witness:
  "is_dict test_value_op \<and> is_dict bogus_op
   \<and> fst (write_excel_data sample_xw (JDict [(''operations'', JList [bogus_op, test_value_op])])) =
       Response 200 (PDict [(''results'', PList
         [error_record ''Unknown operation type: bogus'',
          success_record (''Written '' @ sq @ ''Test Value'' @ sq @ '' to cell A1'')])])
   \<and> fst (write_excel_data sample_xw (JDict [(''operations'', JList [test_value_op])])) =
       Response 200 (PDict [(''results'', PList
         [success_record (''Written '' @ sq @ ''Test Value'' @ sq @ '' to cell A1'')])])"
proof -
  let ?ops = "[bogus_op, test_value_op]"
  let ?kvs = "[(''operations'', JList ?ops)]"
  have d: "\<forall>operation \<in> set ?ops. is_dict operation"
    by (simp add: test_value_op_def bogus_op_def)
  have m: "map_of ?kvs ''operations'' = Some (JList ?ops)" by simp
  have r: "resolve_target sample_xw (dict_get ?kvs ''workbook'') (dict_get ?kvs ''sheet'')
      = Inr (sample_book, sample_sheet)"
    by (simp add: dict_get_def sample_resolves)
  from write_excel_batch [OF m d r] obtain results ws' where
    resp: "write_excel_data sample_xw (JDict ?kvs) =
        (Response 200 (PDict [(''results'', PList results)]), Some ws')"
    and len: "length results = length ?ops"
    and pos: "\<forall>i<length ?ops.
          fst (process_operation (snd (process_operations sample_sheet (take i ?ops) [])) (?ops ! i))
            = Inr (results ! i)"
    and drop: "\<forall>k<length ?ops. \<forall>m. results ! k = error_record m \<longrightarrow>
          (\<exists>ws''.
             write_excel_data sample_xw
               (JDict (py_setitem ?kvs ''operations'' (JList (take k ?ops @ drop (Suc k) ?ops)))) =
               (Response 200 (PDict [(''results'', PList (take k results @ drop (Suc k) results))]),
                Some ws'')
           \<and> cells ws'' = cells ws')"
    by blast
  from len obtain r0 r1 where rs: "results = [r0, r1]"
    by (auto simp: length_Suc_conv)
  from pos [rule_format, of 0] have r0: "r0 = error_record ''Unknown operation type: bogus''"
    by (simp add: rs process_operation_def bogus_op_def dict_get_def py_str_def)
  from pos [rule_format, of 1] have r1:
    "r1 = success_record (''Written '' @ sq @ ''Test Value'' @ sq @ '' to cell A1'')"
    by (simp add: rs process_operation_def bogus_op_def test_value_op_def dict_get_def py_str_def
        range_set_value_def sample_sheet_def sample_refuses_def)
  from drop [rule_format, of 0 "''Unknown operation type: bogus''"] rs r0
  have "\<exists>ws''. write_excel_data sample_xw (JDict [(''operations'', JList [test_value_op])]) =
      (Response 200 (PDict [(''results'', PList [r1])]), Some ws'')"
    by (auto simp: py_setitem_def)
  with resp rs r0 r1 d show ?thesis by auto
qed

text \<open>
  Claim C1 as stated fails: an operation that is not a JSON object raises
  \<open>AttributeError\<close> at \<open>operation.get\<close>, the request answers 500 with no \<open>results\<close>, and
  the write of the operation before it has been made.
\<close>

theorem write_excel_batch_counterexample:
  "resolve_target sample_xw JNone JNone = Inr (sample_book, sample_sheet)
   \<and> write_excel_data sample_xw (JDict [(''operations'', JList [test_value_op, JInt 5])]) =
       (error_response 500 (sq @ ''int'' @ sq @ '' object has no attribute '' @ sq @ ''get'' @ sq),
        Some (sample_sheet\<lparr>cells := [(JStr ''A1'', JStr ''Test Value'')],
                            assigned := [(JStr ''A1'', JStr ''Test Value'')]\<rparr>))"
  by (simp add: sample_resolves write_excel_data_def write_excel_data_try_def dict_get_def
      process_operation_def test_value_op_def range_set_value_def sample_sheet_def
      sample_refuses_def)

text \<open>
  Claim C2, as amended. A \<open>write_cell\<close> operation requires the \<open>cell\<close> field only. When
  \<open>cell\<close> is missing or falsy, the error record "Cell address required for write_cell
  operation" is appended and no assignment is issued. Otherwise exactly one assignment is
  issued, of the \<open>value\<close> field (\<open>None\<close> when the field is missing) to \<open>cell\<close>: when the host
  accepts it, a success record naming the value and the cell is appended; when the host
  raises, an error record naming the cell and the exception's message.
\<close>

theorem write_cell_requires_cell:
  assumes "dict_get kvs ''type'' = JStr ''write_cell''"
  shows "(\<not> py_truthy (dict_get kvs ''cell'') \<longrightarrow>
            process_operation ws (JDict kvs) =
              (Inr (error_record ''Cell address required for write_cell operation''), ws))
     \<and> (py_truthy (dict_get kvs ''cell'') \<longrightarrow>
          (\<exists>r ws'. process_operation ws (JDict kvs) = (Inr r, ws')
             \<and> assigned ws' = assigned ws @ [(dict_get kvs ''cell'', dict_get kvs ''value'')]
             \<and> (refuses ws (cells ws) (dict_get kvs ''cell'') (dict_get kvs ''value'') = None \<longrightarrow>
                  r = success_record (''Written '' @ sq @ py_str (dict_get kvs ''value'') @ sq
                        @ '' to cell '' @ py_str (dict_get kvs ''cell''))
                  \<and> cells ws' = cells ws @ [(dict_get kvs ''cell'', dict_get kvs ''value'')])
             \<and> (\<forall>e. refuses ws (cells ws) (dict_get kvs ''cell'') (dict_get kvs ''value'') = Some e \<longrightarrow>
                  r = error_record (''Failed to write to cell '' @ py_str (dict_get kvs ''cell'')
                        @ '': '' @ exn_str e)
                  \<and> cells ws' = cells ws)))
     \<and> (map_of kvs ''cell'' = None \<longrightarrow> \<not> py_truthy (dict_get kvs ''cell''))
     \<and> (map_of kvs ''value'' = None \<longrightarrow> dict_get kvs ''value'' = JNone)"
  using assms
  by (auto simp: process_operation_def range_set_value_def Let_def dict_get_def
      split: option.splits)

theorem write_cell_requires_cell_witness:
  "process_operation sample_sheet test_value_op =
     (Inr (success_record (''Written '' @ sq @ ''Test Value'' @ sq @ '' to cell A1'')),
      sample_sheet\<lparr>cells := [(JStr ''A1'', JStr ''Test Value'')],
                   assigned := [(JStr ''A1'', JStr ''Test Value'')]\<rparr>)
   \<and> process_operation sample_sheet (JDict [(''type'', JStr ''write_cell''), (''value'', JInt 7)]) =
     (Inr (error_record ''Cell address required for write_cell operation''), sample_sheet)"
proof -
  let ?kvs = "[(''type'', JStr ''write_cell''), (''cell'', JStr ''A1''), (''value'', JStr ''Test Value'')]"
  let ?kvs' = "[(''type'', JStr ''write_cell''), (''value'', JInt 7)]"
  have t: "dict_get ?kvs ''type'' = JStr ''write_cell''" "dict_get ?kvs' ''type'' = JStr ''write_cell''"
    by (simp_all add: dict_get_def)
  have g: "dict_get ?kvs ''cell'' = JStr ''A1''" "dict_get ?kvs ''value'' = JStr ''Test Value''"
    "dict_get ?kvs' ''cell'' = JNone"
    by (simp_all add: dict_get_def)
  have ok: "refuses sample_sheet (cells sample_sheet) (JStr ''A1'') (JStr ''Test Value'') = None"
    by (simp add: sample_sheet_def sample_refuses_def)
  from write_cell_requires_cell [OF t(1), of sample_sheet] g ok
  obtain r ws' where
    "process_operation sample_sheet (JDict ?kvs) = (Inr r, ws')"
    "assigned ws' = assigned sample_sheet @ [(JStr ''A1'', JStr ''Test Value'')]"
    "r = success_record (''Written '' @ sq @ ''Test Value'' @ sq @ '' to cell A1'')"
    "cells ws' = cells sample_sheet @ [(JStr ''A1'', JStr ''Test Value'')]"
    by (auto simp: py_str_def)
  moreover have "ws' = sample_sheet\<lparr>cells := cells ws', assigned := assigned ws'\<rparr>"
    using calculation(1)
    by (auto simp: process_operation_def range_set_value_def Let_def dict_get_def
        split: option.splits)
  ultimately have a: "process_operation sample_sheet test_value_op =
     (Inr (success_record (''Written '' @ sq @ ''Test Value'' @ sq @ '' to cell A1'')),
      sample_sheet\<lparr>cells := [(JStr ''A1'', JStr ''Test Value'')],
                   assigned := [(JStr ''A1'', JStr ''Test Value'')]\<rparr>)"
    by (simp add: test_value_op_def sample_sheet_def)
  from write_cell_requires_cell [OF t(2), of sample_sheet] g(3)
  have b: "process_operation sample_sheet (JDict ?kvs') =
     (Inr (error_record ''Cell address required for write_cell operation''), sample_sheet)"
    by simp
  from a b show ?thesis by simp
qed

text \<open>
  Claim C2 as stated fails: a \<open>write_cell\<close> operation with no \<open>value\<close> field is written,
  as \<open>None\<close>, and reported as a success.
\<close>

theorem write_cell_value_counterexample:
  "map_of [(''type'', JStr ''write_cell''), (''cell'', JStr ''A1'')] ''value'' = None
   \<and> process_operation sample_sheet cell_only_op =
     (Inr (success_record (''Written '' @ sq @ ''None'' @ sq @ '' to cell A1'')),
      sample_sheet\<lparr>cells := [(JStr ''A1'', JNone)], assigned := [(JStr ''A1'', JNone)]\<rparr>)"
  by (simp add: cell_only_op_def process_operation_def dict_get_def range_set_value_def
      sample_sheet_def sample_refuses_def py_str_def)

text \<open>
  Claim C10. A \<open>POST /api/write-excel\<close> body whose \<open>operations\<close> is the empty list is
  not rejected as missing operations: when application, workbook and worksheet resolve,
  the response is 200 with \<open>results\<close> the empty list, and the worksheet is left as it was,
  with no assignment issued.
\<close>

theorem empty_operations_accepted:
  assumes "map_of kvs ''operations'' = Some (JList [])"
    and "resolve_target xw (dict_get kvs ''workbook'') (dict_get kvs ''sheet'') = Inr (wb, ws)"
  shows "write_excel_data xw (JDict kvs) = (Response 200 (PDict [(''results'', PList [])]), Some ws)"
proof -
  from assms(1) have ne: "kvs \<noteq> []" by auto
  from assms(1) have mem: "''operations'' \<in> fst ` set kvs"
    by (metis domI dom_map_of_conv_image_fst)
  show ?thesis
    using assms ne mem
    by (simp add: write_excel_data_def write_excel_data_try_def jsonify_def)
qed

theorem empty_operations_accepted_witness:
  "write_excel_data sample_xw (JDict [(''operations'', JList [])]) =
     (Response 200 (PDict [(''results'', PList [])]), Some sample_sheet)"
  using empty_operations_accepted [of "[(''operations'', JList [])]" sample_xw sample_book sample_sheet]
  by (simp add: dict_get_def sample_resolves)

section \<open>Properties of the tabular read handler\<close>

subsection \<open>The flag\<close>

lemma py_lower_char_eq:
  assumes "(of_char l :: nat) \<le> 122" "97 \<le> (of_char l :: nat)"
    and u: "(of_char u :: nat) + 32 = of_char l"
  shows "py_lower_char c = l \<longleftrightarrow> c = l \<or> c = u"
proof -
  define n where "n = (of_char c :: nat)"
  define m where "m = (of_char l :: nat)"
  define k where "k = (of_char u :: nat)"
  have m: "m \<le> 122" "97 \<le> m" "k + 32 = m"
    using assms by (simp_all add: m_def k_def)
  have n: "n < 256" by (simp add: n_def)
  have cl: "c = l \<longleftrightarrow> n = m"
    unfolding n_def m_def by simp
  have cu: "c = u \<longleftrightarrow> n = k"
    unfolding n_def k_def by simp
  show ?thesis
  proof (cases "(65 \<le> n \<and> n \<le> 90) \<or> (192 \<le> n \<and> n \<le> 222 \<and> n \<noteq> 215)")
    case True
    then have low: "py_lower_char c = char_of (n + 32)"
      unfolding py_lower_char_def Let_def n_def by (rule if_P)
    have "char_of (n + 32) = l \<longleftrightarrow> (n + 32) mod 256 = m"
      unfolding m_def by (metis char_of_char of_char_of)
    also have "(n + 32) mod 256 = n + 32"
    proof -
      have "n + 32 < 256" using True by linarith
      then show ?thesis by (rule mod_less)
    qed
    also have "n + 32 = m \<longleftrightarrow> n = k"
      using m(3) by linarith
    finally have "py_lower_char c = l \<longleftrightarrow> c = u"
      using low cu by simp
    moreover have "n \<noteq> m"
      using True m(1,2) by linarith
    ultimately show ?thesis
      using cl by simp
  next
    case False
    then have "py_lower_char c = c"
      unfolding py_lower_char_def Let_def n_def by (rule if_not_P)
    moreover have "n \<noteq> k"
      using False m by linarith
    ultimately show ?thesis using cu by auto
  qed
qed

lemma lower_t: "py_lower_char c = CHR ''t'' \<longleftrightarrow> c = CHR ''t'' \<or> c = CHR ''T''"
  using py_lower_char_eq [of "CHR ''t''" "CHR ''T''" c] by simp
lemma lower_r: "py_lower_char c = CHR ''r'' \<longleftrightarrow> c = CHR ''r'' \<or> c = CHR ''R''"
  using py_lower_char_eq [of "CHR ''r''" "CHR ''R''" c] by simp
lemma lower_u: "py_lower_char c = CHR ''u'' \<longleftrightarrow> c = CHR ''u'' \<or> c = CHR ''U''"
  using py_lower_char_eq [of "CHR ''u''" "CHR ''U''" c] by simp
lemma lower_e: "py_lower_char c = CHR ''e'' \<longleftrightarrow> c = CHR ''e'' \<or> c = CHR ''E''"
  using py_lower_char_eq [of "CHR ''e''" "CHR ''E''" c] by simp

lemma map_eq_four: "map f s = [w, x, y, z] \<longleftrightarrow> (\<exists>a b c d. s = [a, b, c, d] \<and> f a = w \<and> f b = x \<and> f c = y \<and> f d = z)"
  by (auto simp: map_eq_Cons_conv)

lemma py_lower_true:
  "py_lower s = ''true'' \<longleftrightarrow>
     (\<exists>a b c d. s = [a, b, c, d] \<and> a \<in> {CHR ''t'', CHR ''T''} \<and> b \<in> {CHR ''r'', CHR ''R''}
        \<and> c \<in> {CHR ''u'', CHR ''U''} \<and> d \<in> {CHR ''e'', CHR ''E''})"
  unfolding py_lower_def map_eq_four lower_t lower_r lower_u lower_e by auto

subsection \<open>Responses\<close>

lemma status_error_response [simp]: "status (error_response code msg) = code"
  by (simp add: error_response_def)

lemma has_field_error_response [simp]:
  "has_field (error_response code msg) k \<longleftrightarrow> k = ''error''"
  by (auto simp: error_response_def has_field_def)

lemma read_worksheet_table:
  assumes "used_range ws = Some used" and "table used = Inr (Some df)"
  shows "read_worksheet flag wb ws =
     (if empty_df df then Inr (error_response 404 ''No data found in worksheet'')
      else jsonify (PDict (response_data flag wb ws used df)) 200)"
  using assms by (simp add: read_worksheet_def)

lemma response_data_keys:
  "''cell_mapping'' \<in> fst ` set (response_data flag wb ws used df) \<longleftrightarrow> flag \<and> nrows df \<le> 100"
  by (simp add: response_data_def Let_def py_setitem_def shape_def)

lemma get_excel_data_resolved:
  assumes "resolve_target xw (args_get (workbook_arg args)) (args_get (sheet_arg args)) = Inr (wb, ws)"
  shows "get_excel_data xw args =
     (case read_worksheet (include_cell_mapping args) wb ws of
        Inl e \<Rightarrow> error_response 500 (exn_str e) | Inr r \<Rightarrow> r)"
  using assms by (simp add: get_excel_data_def get_excel_data_try_def Let_def)

lemma get_excel_data_no_mapping:
  assumes "\<not> include_cell_mapping args"
  shows "\<not> has_field (get_excel_data xw args) ''cell_mapping''"
proof (cases "resolve_target xw (args_get (workbook_arg args)) (args_get (sheet_arg args))")
  case (Inl r)
  then have "get_excel_data xw args = r"
    by (simp add: get_excel_data_def get_excel_data_try_def Let_def)
  moreover from Inl have "\<exists>code msg. r = error_response code msg"
    by (auto simp: resolve_target_def split: option.splits if_splits sum.splits)
  ultimately show ?thesis by auto
next
  case (Inr p)
  obtain wb ws where p: "p = (wb, ws)" by (cases p)
  show ?thesis
    unfolding get_excel_data_resolved [OF Inr [unfolded p]]
    using assms
    by (auto simp: read_worksheet_def jsonify_def has_field_def response_data_def error_response_def
        split: option.splits sum.splits)
qed

text \<open>
  Claim C9. The cell-mapping flag of \<open>GET /api/excel-data\<close> is true exactly when the
  \<open>include_cell_mapping\<close> parameter is absent or is \<open>true\<close> in any mix of upper and lower
  case; every other value, such as \<open>1\<close>, \<open>yes\<close> or \<open>true\<close> with spaces around it, makes
  it false, and a false flag keeps \<open>cell_mapping\<close> out of the response.
\<close>

theorem include_cell_mapping_flag:
  "(include_cell_mapping args \<longleftrightarrow>
      include_cell_mapping_arg args = None
      \<or> (\<exists>a b c d. include_cell_mapping_arg args = Some [a, b, c, d]
            \<and> a \<in> {CHR ''t'', CHR ''T''} \<and> b \<in> {CHR ''r'', CHR ''R''}
            \<and> c \<in> {CHR ''u'', CHR ''U''} \<and> d \<in> {CHR ''e'', CHR ''E''}))
   \<and> (\<not> include_cell_mapping args \<longrightarrow> \<not> has_field (get_excel_data xw args) ''cell_mapping'')
   \<and> (include_cell_mapping_arg args \<in> {Some ''1'', Some ''yes'', Some '' true ''} \<longrightarrow>
        \<not> include_cell_mapping args)"
proof -
  have flag: "include_cell_mapping args \<longleftrightarrow>
      include_cell_mapping_arg args = None
      \<or> (\<exists>a b c d. include_cell_mapping_arg args = Some [a, b, c, d]
            \<and> a \<in> {CHR ''t'', CHR ''T''} \<and> b \<in> {CHR ''r'', CHR ''R''}
            \<and> c \<in> {CHR ''u'', CHR ''U''} \<and> d \<in> {CHR ''e'', CHR ''E''})"
  proof (cases "include_cell_mapping_arg args")
    case None
    then show ?thesis by (simp add: include_cell_mapping_def py_lower_true)
  next
    case (Some s)
    then show ?thesis by (simp add: include_cell_mapping_def py_lower_true)
  qed
  have "include_cell_mapping_arg args \<in> {Some ''1'', Some ''yes'', Some '' true ''} \<longrightarrow>
        \<not> include_cell_mapping args"
    unfolding flag by auto
  with flag get_excel_data_no_mapping [of args xw] show ?thesis by blast
qed

theorem include_cell_mapping_flag_witness:
  "include_cell_mapping (no_args\<lparr>include_cell_mapping_arg := Some ''TRUE''\<rparr>)
   \<and> \<not> include_cell_mapping (no_args\<lparr>include_cell_mapping_arg := Some ''yes''\<rparr>)
   \<and> \<not> has_field (get_excel_data sample_xw (no_args\<lparr>include_cell_mapping_arg := Some ''yes''\<rparr>))
         ''cell_mapping''"
  using include_cell_mapping_flag [of "no_args\<lparr>include_cell_mapping_arg := Some ''TRUE''\<rparr>" sample_xw]
    include_cell_mapping_flag [of "no_args\<lparr>include_cell_mapping_arg := Some ''yes''\<rparr>" sample_xw]
  by simp

text \<open>
  Claim C4. A successful response of \<open>GET /api/excel-data\<close> has the field
  \<open>cell_mapping\<close> if and only if the cell-mapping flag is set and the converted table has
  at most 100 rows.
\<close>

theorem cell_mapping_included_iff:
  assumes "resolve_target xw (args_get (workbook_arg args)) (args_get (sheet_arg args)) = Inr (wb, ws)"
    and "used_range ws = Some used" and "table used = Inr (Some df)"
    and "status (get_excel_data xw args) = 200"
  shows "has_field (get_excel_data xw args) ''cell_mapping''
     \<longleftrightarrow> include_cell_mapping args \<and> nrows df \<le> 100"
proof -
  let ?d = "response_data (include_cell_mapping args) wb ws used df"
  have r: "get_excel_data xw args =
     (case (if empty_df df then Inr (error_response 404 ''No data found in worksheet'')
            else jsonify (PDict ?d) 200) of
        Inl e \<Rightarrow> error_response 500 (exn_str e) | Inr r \<Rightarrow> r)"
    unfolding get_excel_data_resolved [OF assms(1)] read_worksheet_table [OF assms(2,3)] ..
  from assms(4) have "get_excel_data xw args = Response 200 (PDict ?d)"
    unfolding r by (auto simp: jsonify_def split: if_splits option.splits)
  then show ?thesis
    by (simp add: has_field_def response_data_keys)
qed

theorem cell_mapping_included_iff_witness:
  "has_field (get_excel_data sample_xw no_args) ''cell_mapping''
   \<and> \<not> has_field (get_excel_data sample_xw (no_args\<lparr>include_cell_mapping_arg := Some ''false''\<rparr>)) ''cell_mapping''"
proof -
  let ?off = "no_args\<lparr>include_cell_mapping_arg := Some ''false''\<rparr>"
  have a: "resolve_target sample_xw (args_get (workbook_arg no_args)) (args_get (sheet_arg no_args))
      = Inr (sample_book, sample_sheet)"
    "resolve_target sample_xw (args_get (workbook_arg ?off)) (args_get (sheet_arg ?off))
      = Inr (sample_book, sample_sheet)"
    by (simp_all add: no_args_def args_get_def sample_resolves)
  have b: "used_range sample_sheet = Some sample_range" "table sample_range = Inr (Some sample_table)"
    by (simp_all add: sample_sheet_def sample_range_def)
  have c: "status (get_excel_data sample_xw no_args) = 200" "status (get_excel_data sample_xw ?off) = 200"
    by code_simp+
  have d: "include_cell_mapping no_args" "\<not> include_cell_mapping ?off" "nrows sample_table \<le> 100"
    by code_simp+
  show ?thesis
    using cell_mapping_included_iff [OF a(1) b c(1)] cell_mapping_included_iff [OF a(2) b c(2)] d
    by simp
qed

text \<open>
  Claim C7. When application, workbook and worksheet resolve and the used range is absent,
  or the converted table is absent or empty, \<open>GET /api/excel-data\<close> answers 404 with the
  message "No data found in worksheet".
\<close>

theorem no_data_found:
  assumes "resolve_target xw (args_get (workbook_arg args)) (args_get (sheet_arg args)) = Inr (wb, ws)"
    and "used_range ws = None
       \<or> (\<exists>used. used_range ws = Some used
             \<and> (table used = Inr None \<or> (\<exists>df. table used = Inr (Some df) \<and> empty_df df)))"
  shows "get_excel_data xw args = error_response 404 ''No data found in worksheet''"
  using assms(2) unfolding get_excel_data_resolved [OF assms(1)]
  by (auto simp: read_worksheet_def)

theorem no_data_found_witness:
  "get_excel_data (sample_xw\<lparr>apps_active := Inr (Some (sample_app\<lparr>books_active :=
       Inr (Some (sample_book\<lparr>sheets_active := Inr (Some (sample_sheet\<lparr>used_range := None\<rparr>))\<rparr>))\<rparr>))\<rparr>) no_args
     = error_response 404 ''No data found in worksheet''"
proof -
  let ?ws = "sample_sheet\<lparr>used_range := None\<rparr>"
  let ?wb = "sample_book\<lparr>sheets_active := Inr (Some ?ws)\<rparr>"
  let ?xw = "sample_xw\<lparr>apps_active := Inr (Some (sample_app\<lparr>books_active := Inr (Some ?wb)\<rparr>))\<rparr>"
  have a: "resolve_target ?xw (args_get (workbook_arg no_args)) (args_get (sheet_arg no_args)) = Inr (?wb, ?ws)"
    by (simp add: resolve_target_def get_excel_app_def get_active_workbook_def get_worksheet_def
        no_args_def args_get_def)
  have b: "used_range ?ws = None" by simp
  show ?thesis
    using no_data_found [OF a] b by simp
qed

subsection \<open>Cell addresses\<close>

















subsection \<open>The cell mapping\<close>















section \<open>Properties of the resource locator\<close>




section \<open>Properties of the encoder\<close>



end
